theory Spec2Isabelle
  imports Main "HOL-Library.AList"
begin

section \<open>Python values the proxy handler works with\<close>

text \<open>
  The handler of \<^verbatim>\<open>httpserver.py\<close> is a subclass of the standard library's
  request handler. What it does outside the repository (the cache, the origin through
  \<^verbatim>\<open>urlopen\<close>, the response written through the inherited
  \<^verbatim>\<open>send_response\<close>, \<^verbatim>\<open>send_error\<close>, \<^verbatim>\<open>send_header\<close> and
  \<^verbatim>\<open>end_headers\<close>, the client stream and the log queue) is recorded as a list of
  actions, in order. What a collaborator answers (a cache lookup, the origin, URL parsing,
  the clock) is read from an environment. Of the inherited \<^verbatim>\<open>send_response\<close> and
  \<^verbatim>\<open>send_error\<close> the model keeps the two things that come back into the
  repository or decide whether a response is written: they log through the handler's own
  \<^verbatim>\<open>log_message\<close>, which puts the line on the log queue, and
  \<^verbatim>\<open>send_error\<close> escapes its message for the HTML body, which fails when the
  message is not a str.
\<close>

text \<open>
  A Python value that is passed on as a message: a str, or some other object (an exception
  instance, for one), of which the model keeps what \<^verbatim>\<open>str()\<close> makes of it.
\<close>

datatype pyval = PyStr string | PyObj string

fun py_str :: "pyval \<Rightarrow> string" where
  "py_str (PyStr s) = s"
| "py_str (PyObj s) = s"

fun is_str :: "pyval \<Rightarrow> bool" where
  "is_str (PyStr s) = True"
| "is_str (PyObj s) = False"

text \<open>
  Exceptions. Only the classes that \<^verbatim>\<open>handle_exception\<close> tells apart are kept, and
  the AttributeError that the inherited \<^verbatim>\<open>send_error\<close> can raise. An HTTPError
  carries its code, its reason and its \<^verbatim>\<open>str()\<close>, an OSError its
  \<^verbatim>\<open>strerror\<close>, any other exception its \<^verbatim>\<open>str()\<close>. A URLError carries its
  reason, which is whatever its constructor was given: a str, or another object, as when
  urllib's opener catches the OSError of a failed connection and raises
  \<^verbatim>\<open>URLError(err)\<close>.
\<close>

datatype exc =
    ValueError
  | HTTPError int string string
  | ConnectionResetError
  | TimeoutError
  | URLError pyval
  | BrokenPipeError
  | OSError string
  | AttributeError
  | OtherException string

datatype exc_class =
    ValueErrorC | HTTPErrorC | ConnectionResetErrorC | TimeoutErrorC
  | URLErrorC | BrokenPipeErrorC | OSErrorC

text \<open>
  \<^verbatim>\<open>isinstance\<close> follows Python's class hierarchy: HTTPError is a URLError,
  URLError, TimeoutError, ConnectionResetError and BrokenPipeError are OSErrors.
\<close>

fun isinstance :: "exc \<Rightarrow> exc_class \<Rightarrow> bool" where
  "isinstance ValueError c = (c = ValueErrorC)"
| "isinstance (HTTPError n r s) c = (c = HTTPErrorC \<or> c = URLErrorC \<or> c = OSErrorC)"
| "isinstance ConnectionResetError c = (c = ConnectionResetErrorC \<or> c = OSErrorC)"
| "isinstance TimeoutError c = (c = TimeoutErrorC \<or> c = OSErrorC)"
| "isinstance (URLError r) c = (c = URLErrorC \<or> c = OSErrorC)"
| "isinstance BrokenPipeError c = (c = BrokenPipeErrorC \<or> c = OSErrorC)"
| "isinstance (OSError s) c = (c = OSErrorC)"
| "isinstance AttributeError c = False"
| "isinstance (OtherException s) c = False"

fun code :: "exc \<Rightarrow> int" where
  "code (HTTPError n r s) = n"

fun reason :: "exc \<Rightarrow> pyval" where
  "reason (HTTPError n r s) = PyStr r"
| "reason (URLError r) = r"

fun strerror :: "exc \<Rightarrow> string" where
  "strerror (OSError s) = s"

fun str :: "exc \<Rightarrow> string" where
  "str (HTTPError n r s) = s"
| "str (OtherException s) = s"

text \<open>A header value handed to \<^verbatim>\<open>Request\<close>: a string, an int or None.\<close>

datatype hval = HStr string | HInt int | HNone

record py_request =
  full_url :: string
  req_data :: "string option"
  req_headers :: "(string \<times> hval) list"
  req_method :: "string option"

definition Request :: "string \<Rightarrow> string option \<Rightarrow> (string \<times> hval) list \<Rightarrow> string option \<Rightarrow> py_request" where
  "Request url d hs m = \<lparr>full_url = url, req_data = d, req_headers = hs, req_method = m\<rparr>"

text \<open>\<^verbatim>\<open>urlopen\<close> is called either with a bare URL string or with a Request object.\<close>

datatype urlopen_arg = Url string | Req py_request

record http_response =
  res_status :: int
  res_headers :: "(string \<times> string) list"
  res_read :: "exc + string"

record cache_data =
  cached_headers :: "(string \<times> string) list"
  cached_content :: string

section \<open>shared\_settings.py\<close>

record shared_settings =
  url_whitelist :: "string list"
  url_blacklist :: "string list"
  ip_whitelist :: "string list"
  ip_blacklist :: "string list"
  allow_caching :: bool
  caching_timer :: int

text \<open>
  The answers of the collaborators while one request is handled: the hostname that
  \<^verbatim>\<open>urlparse(path).hostname\<close> yields (None when the URL has none; urlparse may
  raise), what \<^verbatim>\<open>ss.cache.get\<close> returns (None on a miss or after expiry),
  what \<^verbatim>\<open>urlopen\<close> returns or raises, and the date string that
  \<^verbatim>\<open>log_date_time_string()\<close> gives (one value while the request is handled).
\<close>

record env =
  urlparse_hostname :: "string \<Rightarrow> exc + string option"
  cache_get :: "string \<Rightarrow> cache_data option"
  urlopen :: "urlopen_arg \<Rightarrow> exc + http_response"
  log_date_time :: string

text \<open>
  The handler instance: the request line as it was received, the request target parsed
  from it, inbound headers, body stream, peer address.
\<close>

record request =
  requestline :: string
  path :: string
  headers :: "(string \<times> string) list"
  rfile :: string
  client_address :: "string \<times> nat"

datatype action =
    CacheGet string
  | CacheSet string cache_data int
  | Urlopen urlopen_arg
  | QueuePut string
  | SendError int string "string option"
  | SendResponse int "string option"
  | SendHeader string string
  | EndHeaders
  | WfileWrite string

text \<open>
  \<^verbatim>\<open>QueuePut\<close> is a line put on the log queue. \<^verbatim>\<open>SendResponse\<close>,
  \<^verbatim>\<open>SendHeader\<close> and \<^verbatim>\<open>EndHeaders\<close> are the status line, a header and the
  end of the headers of a response; \<^verbatim>\<open>WfileWrite\<close> is a write on the client stream.
  \<^verbatim>\<open>SendError\<close> is the whole error response that a completed
  \<^verbatim>\<open>send_error(code, message, explain)\<close> writes to the client.
\<close>

text \<open>
  A computation is the list of actions it performed and then either the exception that
  ended it or its value.
\<close>

type_synonym 'a run = "action list \<times> (exc + 'a)"

definition ret :: "'a \<Rightarrow> 'a run" where
  "ret x = ([], Inr x)"

definition raise :: "exc \<Rightarrow> 'a run" where
  "raise e = ([], Inl e)"

definition lift :: "exc + 'a \<Rightarrow> 'a run" where
  "lift r = ([], r)"

definition emit :: "action \<Rightarrow> unit run" where
  "emit a = ([a], Inr ())"

definition bnd :: "'a run \<Rightarrow> ('a \<Rightarrow> 'b run) \<Rightarrow> 'b run" where
  "bnd m f = (case m of
      (as, Inl e) \<Rightarrow> (as, Inl e)
    | (as, Inr x) \<Rightarrow> (case f x of (bs, r) \<Rightarrow> (as @ bs, r)))"

definition try_except :: "'a run \<Rightarrow> (exc \<Rightarrow> 'a run) \<Rightarrow> 'a run" where
  "try_except m h = (case m of
      (as, Inl e) \<Rightarrow> (case h e of (bs, r) \<Rightarrow> (as @ bs, r))
    | (as, Inr x) \<Rightarrow> (as, Inr x))"

section \<open>The log queue and its drain (main\_blueprint.py, log\_message)\<close>

text \<open>\<^verbatim>\<open>sse_queue\<close> is a FIFO queue; \<^verbatim>\<open>put\<close> appends at the end.\<close>

definition put :: "string list \<Rightarrow> string \<Rightarrow> string list" where
  "put q l = q @ [l]"

text \<open>
  \<^verbatim>\<open>log_message\<close> formats one line from the date string, the address string and the
  formatted message, and puts it on the queue.
\<close>

definition log_message :: "string \<Rightarrow> string \<Rightarrow> string \<Rightarrow> string list \<Rightarrow> string list" where
  "log_message log_date_time_string address_string msg q =
     put q (log_date_time_string @ '' '' @ address_string @ '' '' @ msg)"

text \<open>
  The \<^verbatim>\<open>/data\<close> route: copy the queue into a list, clear the queue, return the list.
  The result is the pair of the list sent and the queue left behind.
\<close>

definition data :: "string list \<Rightarrow> string list \<times> string list" where
  "data q = (let send_data = q in (send_data, []))"

datatype sink_op = Push string | Drain

text \<open>
  A run of pushes and drains on the queue: the lists delivered by the drains, in order,
  and the queue at the end.
\<close>

fun run_sink :: "sink_op list \<Rightarrow> string list \<Rightarrow> string list list \<times> string list" where
  "run_sink [] q = ([], q)"
| "run_sink (Push l # ops) q = run_sink ops (put q l)"
| "run_sink (Drain # ops) q =
     (case data q of (sent, q') \<Rightarrow> (case run_sink ops q' of (ds, qf) \<Rightarrow> (sent # ds, qf)))"

fun pushed :: "sink_op list \<Rightarrow> string list" where
  "pushed [] = []"
| "pushed (Push l # ops) = l # pushed ops"
| "pushed (Drain # ops) = pushed ops"

section \<open>Filters (httpserver.py)\<close>

text \<open>
  \<^verbatim>\<open>filter_request_url\<close>: the hostname is a string or None; the lists hold strings, so
  None is a member of neither.
\<close>

definition filter_request_url :: "env \<Rightarrow> shared_settings \<Rightarrow> request \<Rightarrow> exc + bool" where
  "filter_request_url ev ss self =
     (case urlparse_hostname ev (path self) of
        Inl e \<Rightarrow> Inl e
      | Inr url_hostname \<Rightarrow>
          Inr (if url_whitelist ss \<noteq> [] \<and> url_hostname \<notin> Some ` set (url_whitelist ss) then False
               else if url_hostname \<in> Some ` set (url_blacklist ss)
                       \<and> url_hostname \<notin> Some ` set (url_whitelist ss) then False
               else True))"

definition filter_request_ip :: "shared_settings \<Rightarrow> request \<Rightarrow> bool" where
  "filter_request_ip ss self =
     (case client_address self of (client_ip, client_port) \<Rightarrow>
        (if ip_whitelist ss \<noteq> [] \<and> client_ip \<notin> set (ip_whitelist ss) then False
         else if client_ip \<in> set (ip_blacklist ss) \<and> client_ip \<notin> set (ip_whitelist ss) then False
         else True))"

section \<open>Helpers of the method bodies\<close>

text \<open>
  Header lookup \<^verbatim>\<open>self.headers[name]\<close> and \<^verbatim>\<open>self.headers.get(name)\<close>: the
  first header whose name matches case-insensitively, or None.
\<close>

definition lower_char :: "char \<Rightarrow> char" where
  "lower_char c = (let n = (of_char c :: nat) in
     if (65 \<le> n \<and> n \<le> 90) \<or> (192 \<le> n \<and> n \<le> 222 \<and> n \<noteq> 215) then char_of (n + 32) else c)"

definition lower :: "string \<Rightarrow> string" where
  "lower s = map lower_char s"

definition headers_get :: "(string \<times> string) list \<Rightarrow> string \<Rightarrow> string option" where
  "headers_get hs name =
     map_option snd (find (\<lambda>kv. lower (fst kv) = lower name) hs)"

text \<open>
  \<^verbatim>\<open>int(s)\<close> on a string: surrounding whitespace is dropped, one sign is allowed,
  then decimal digits, with single underscores between digits. Anything else raises
  ValueError; \<^verbatim>\<open>int(None)\<close> raises TypeError, which no branch of
  \<^verbatim>\<open>handle_exception\<close> names.
\<close>

definition is_space :: "char \<Rightarrow> bool" where
  "is_space c = (let n = (of_char c :: nat) in
     (9 \<le> n \<and> n \<le> 13) \<or> (28 \<le> n \<and> n \<le> 32) \<or> n = 133 \<or> n = 160)"

definition is_digit :: "char \<Rightarrow> bool" where
  "is_digit c = (let n = (of_char c :: nat) in 48 \<le> n \<and> n \<le> 57)"

definition digit_val :: "char \<Rightarrow> nat" where
  "digit_val c = of_char c - 48"

definition strip :: "string \<Rightarrow> string" where
  "strip s = rev (dropWhile is_space (rev (dropWhile is_space s)))"

fun parse_digits :: "bool \<Rightarrow> nat \<Rightarrow> string \<Rightarrow> nat option" where
  "parse_digits prev acc [] = (if prev then Some acc else None)"
| "parse_digits prev acc (c # cs) =
     (if is_digit c then parse_digits True (10 * acc + digit_val c) cs
      else if c = CHR ''_'' \<and> prev then parse_digits False acc cs
      else None)"

definition int_of_str :: "string \<Rightarrow> int option" where
  "int_of_str s = (case strip s of
      [] \<Rightarrow> None
    | c # cs \<Rightarrow>
        if c = CHR ''-'' then map_option (\<lambda>n. - int n) (parse_digits False 0 cs)
        else if c = CHR ''+'' then map_option int (parse_digits False 0 cs)
        else map_option int (parse_digits False 0 (c # cs)))"

definition py_int :: "string option \<Rightarrow> exc + int" where
  "py_int v = (case v of
      None \<Rightarrow> Inl (OtherException ''int() argument must be a string, a bytes-like object or a real number, not NoneType'')
    | Some s \<Rightarrow> (case int_of_str s of None \<Rightarrow> Inl ValueError | Some n \<Rightarrow> Inr n))"

text \<open>
  \<^verbatim>\<open>self.rfile.read(n)\<close> on the buffered request stream: up to \<open>n\<close> bytes (fewer when
  the stream ends first), everything for \<open>-1\<close>, ValueError below \<open>-1\<close>.
\<close>

definition rfile_read :: "request \<Rightarrow> int \<Rightarrow> exc + string" where
  "rfile_read self n =
     (if n < - 1 then Inl ValueError
      else if n = - 1 then Inr (rfile self)
      else Inr (take (nat n) (rfile self)))"

text \<open>
  \<^verbatim>\<open>headers = {}\<close> filled by \<^verbatim>\<open>headers[header] = value\<close> over the inbound
  headers: a later value replaces an earlier one under the same key, in place.
\<close>

definition headers_dict :: "(string \<times> string) list \<Rightarrow> (string \<times> hval) list" where
  "headers_dict items = fold (\<lambda>kv d. AList.update (fst kv) (HStr (snd kv)) d) items []"

text \<open>The calls on the collaborators.\<close>

definition cache_get_call :: "env \<Rightarrow> string \<Rightarrow> cache_data option run" where
  "cache_get_call ev key = ([CacheGet key], Inr (cache_get ev key))"

definition cache_set_call :: "string \<Rightarrow> cache_data \<Rightarrow> int \<Rightarrow> unit run" where
  "cache_set_call key v expire = emit (CacheSet key v expire)"

definition urlopen_call :: "env \<Rightarrow> urlopen_arg \<Rightarrow> http_response run" where
  "urlopen_call ev a = ([Urlopen a], urlopen ev a)"

definition queue_put :: "string \<Rightarrow> unit run" where
  "queue_put l = emit (QueuePut l)"

text \<open>
  \<^verbatim>\<open>str()\<close> of an int, which is also what \<^verbatim>\<open>%d\<close> prints.
\<close>

fun str_nat :: "nat \<Rightarrow> string" where
  "str_nat n = (if n < 10 then [char_of (48 + n)]
                else str_nat (n div 10) @ [char_of (48 + n mod 10)])"

declare str_nat.simps [simp del]

definition str_int :: "int \<Rightarrow> string" where
  "str_int i = (if i < 0 then CHR ''-'' # str_nat (nat (- i)) else str_nat (nat i))"

text \<open>
  The handler's \<^verbatim>\<open>log_message\<close> as the inherited methods call it, with the message
  already formatted: the line is built from the date string, the address string
  (\<^verbatim>\<open>self.client_address[0]\<close>) and the message, and put on the queue.
\<close>

definition address_string :: "request \<Rightarrow> string" where
  "address_string self = fst (client_address self)"

definition log_string :: "env \<Rightarrow> request \<Rightarrow> string \<Rightarrow> string" where
  "log_string ev self msg = log_date_time ev @ '' '' @ address_string self @ '' '' @ msg"

definition log_message_run :: "env \<Rightarrow> request \<Rightarrow> string \<Rightarrow> unit run" where
  "log_message_run ev self msg = queue_put (log_string ev self msg)"

text \<open>
  The inherited \<^verbatim>\<open>log_error(format, *args)\<close> passes its arguments on to
  \<^verbatim>\<open>log_message\<close>; \<^verbatim>\<open>log_request(code)\<close> logs the request line in double
  quotes, the code and \<^verbatim>\<open>-\<close> for the size.
\<close>

definition log_error :: "env \<Rightarrow> request \<Rightarrow> string \<Rightarrow> unit run" where
  "log_error ev self msg = log_message_run ev self msg"

definition log_request :: "env \<Rightarrow> request \<Rightarrow> int \<Rightarrow> unit run" where
  "log_request ev self c =
     log_message_run ev self (CHR 0x22 # requestline self @ CHR 0x22 # '' '' @ str_int c @ '' -'')"

text \<open>
  The inherited \<^verbatim>\<open>send_response(code, message)\<close> logs the request and buffers the
  status line.
\<close>

definition send_response :: "env \<Rightarrow> request \<Rightarrow> int \<Rightarrow> string option \<Rightarrow> unit run" where
  "send_response ev self c message =
     bnd (log_request ev self c) (\<lambda>_. emit (SendResponse c message))"

text \<open>
  The inherited \<^verbatim>\<open>send_error(code, message, explain)\<close>: it logs
  \<^verbatim>\<open>"code %d, message %s"\<close>, calls \<^verbatim>\<open>send_response\<close> (which logs the
  request), and, for a code that has a body (from 200 on, and none of 204, 205, 304), puts
  \<^verbatim>\<open>html.escape(message)\<close> into the body. \<^verbatim>\<open>html.escape\<close> calls
  \<^verbatim>\<open>message.replace\<close>, so a message that is not a str raises AttributeError there,
  before the headers are ended: nothing has been written to the client then. Otherwise the
  error response is written.
\<close>

definition send_error :: "env \<Rightarrow> request \<Rightarrow> int \<Rightarrow> pyval \<Rightarrow> string option \<Rightarrow> unit run" where
  "send_error ev self c message explain =
     bnd (log_error ev self (''code '' @ str_int c @ '', message '' @ py_str message)) (\<lambda>_.
     bnd (log_request ev self c) (\<lambda>_.
     if c \<ge> 200 \<and> c \<notin> {204, 205, 304} \<and> \<not> is_str message then raise AttributeError
     else emit (SendError c (py_str message) explain)))"

definition send_header :: "string \<Rightarrow> string \<Rightarrow> unit run" where
  "send_header keyword v = emit (SendHeader keyword v)"

definition end_headers :: "unit run" where
  "end_headers = emit EndHeaders"

definition wfile_write :: "string \<Rightarrow> unit run" where
  "wfile_write b = emit (WfileWrite b)"

text \<open>\<^verbatim>\<open>for header, value in items: self.send_header(header, value)\<close>\<close>

fun send_headers :: "(string \<times> string) list \<Rightarrow> unit run" where
  "send_headers [] = ret ()"
| "send_headers (hv # rest) = bnd (send_header (fst hv) (snd hv)) (\<lambda>_. send_headers rest)"

section \<open>handle\_exception and the decorator\<close>

definition handle_exception :: "env \<Rightarrow> request \<Rightarrow> exc \<Rightarrow> unit run" where
  "handle_exception ev self e =
     (if isinstance e ValueErrorC then
        send_error ev self 400 (PyStr ''Bad Request'') None
      else if isinstance e HTTPErrorC then
        send_error ev self (code e) (reason e) (Some (str e))
      else if isinstance e ConnectionResetErrorC then
        queue_put ''* connection reset by remote host *''
      else if isinstance e TimeoutErrorC then
        bnd (queue_put ''* timeout while accessing URL: {self.path} *'')
          (\<lambda>_. send_error ev self 504 (PyStr ''Gateway Timeout'') None)
      else if isinstance e URLErrorC then
        send_error ev self 502 (reason e) None
      else if isinstance e BrokenPipeErrorC then
        queue_put ''* client disconnected before response could be sent *''
      else if isinstance e OSErrorC then
        bnd (queue_put (''* OS Error: '' @ strerror e @ '' *''))
          (\<lambda>_. send_error ev self 500 (PyStr ''Internal Server Error'') None)
      else
        bnd (queue_put (''* unexpected Error: '' @ str e @ '' *''))
          (\<lambda>_. send_error ev self 500 (PyStr ''Internal Server Error'') None))"

text \<open>
  The decorator: \<^verbatim>\<open>filter_request_ip() and filter_request_url()\<close> evaluates the URL
  filter only when the IP filter returned True; everything runs inside the
  \<^verbatim>\<open>try\<close>.
\<close>

definition filter_and_exceptions ::
  "(env \<Rightarrow> shared_settings \<Rightarrow> request \<Rightarrow> unit run) \<Rightarrow> env \<Rightarrow> shared_settings \<Rightarrow> request \<Rightarrow> unit run" where
  "filter_and_exceptions func ev ss self =
     try_except
       (bnd (if filter_request_ip ss self then lift (filter_request_url ev ss self) else ret False)
          (\<lambda>allowed.
             if \<not> allowed then send_error ev self 403 (PyStr ''Access Denied'') None
             else func ev ss self))
       (\<lambda>e. handle_exception ev self e)"

section \<open>The method bodies (the functions the decorator wraps)\<close>

definition do_GET_body :: "env \<Rightarrow> shared_settings \<Rightarrow> request \<Rightarrow> unit run" where
  "do_GET_body ev ss self =
     bnd (cache_get_call ev (path self)) (\<lambda>cached_response.
       if cached_response = None \<or> \<not> allow_caching ss then
         bnd (urlopen_call ev (Url (path self))) (\<lambda>res.
         bnd (lift (res_read res)) (\<lambda>res_content.
         let cache_data = \<lparr>cached_headers = res_headers res, cached_content = res_content\<rparr> in
         bnd (if allow_caching ss
              then cache_set_call (path self) cache_data (caching_timer ss)
              else ret ()) (\<lambda>_.
         bnd (send_response ev self (res_status res) None) (\<lambda>_.
         bnd (send_headers (cached_headers cache_data)) (\<lambda>_.
         bnd end_headers (\<lambda>_.
         wfile_write res_content))))))
       else
         bnd (queue_put (''* sent data from cache '' @ path self @ '' *'')) (\<lambda>_.
         bnd (send_response ev self 200 (Some ''OK (from cache)'')) (\<lambda>_.
         bnd (send_headers (cached_headers (the cached_response))) (\<lambda>_.
         bnd end_headers (\<lambda>_.
         wfile_write (cached_content (the cached_response)))))))"

definition do_POST_body :: "env \<Rightarrow> shared_settings \<Rightarrow> request \<Rightarrow> unit run" where
  "do_POST_body ev ss self =
     (let url = path self in
      bnd (lift (py_int (headers_get (headers self) ''Content-Length''))) (\<lambda>content_length.
      bnd (lift (rfile_read self content_length)) (\<lambda>post_data.
      let hs = [(''Content-Type'', (case headers_get (headers self) ''Content-Type'' of
                                      None \<Rightarrow> HNone | Some v \<Rightarrow> HStr v)),
                (''Content-Length'', HInt (int (length post_data)))] in
      let req = Request url (Some post_data) hs (Some ''POST'') in
      bnd (urlopen_call ev (Req req)) (\<lambda>res.
      bnd (lift (res_read res)) (\<lambda>res_content.
      bnd (send_response ev self (res_status res) None) (\<lambda>_.
      bnd (send_headers (res_headers res)) (\<lambda>_.
      bnd end_headers (\<lambda>_.
      wfile_write res_content))))))))"

definition do_DELETE_body :: "env \<Rightarrow> shared_settings \<Rightarrow> request \<Rightarrow> unit run" where
  "do_DELETE_body ev ss self =
     (let url = path self;
          hs = headers_dict (headers self);
          req = Request url None hs (Some ''DELETE'') in
      bnd (urlopen_call ev (Req req)) (\<lambda>res.
      bnd (send_response ev self (res_status res) None) (\<lambda>_.
      bnd (send_headers (res_headers res)) (\<lambda>_.
      bnd end_headers (\<lambda>_.
      bnd (lift (res_read res)) (\<lambda>res_content.
      wfile_write res_content))))))"

definition do_OPTIONS_body :: "env \<Rightarrow> shared_settings \<Rightarrow> request \<Rightarrow> unit run" where
  "do_OPTIONS_body ev ss self =
     bnd (send_response ev self 200 None) (\<lambda>_.
     bnd (send_header ''Allow'' ''OPTIONS, GET, HEAD, POST, PUT, DELETE, CONNECT'') (\<lambda>_.
     bnd (send_header ''Content-Length'' ''0'') (\<lambda>_.
     end_headers)))"

definition do_PUT_body :: "env \<Rightarrow> shared_settings \<Rightarrow> request \<Rightarrow> unit run" where
  "do_PUT_body ev ss self =
     (let url = path self;
          hs = headers_dict (headers self) in
      bnd (lift (case headers_get (headers self) ''Content-Length'' of
                   None \<Rightarrow> Inr 0 | Some v \<Rightarrow> py_int (Some v))) (\<lambda>content_length.
      bnd (lift (rfile_read self content_length)) (\<lambda>request_body.
      let req = Request url (Some request_body) hs (Some ''PUT'') in
      bnd (urlopen_call ev (Req req)) (\<lambda>res.
      bnd (send_response ev self (res_status res) None) (\<lambda>_.
      bnd (send_headers (res_headers res)) (\<lambda>_.
      bnd end_headers (\<lambda>_.
      bnd (lift (res_read res)) (\<lambda>res_content.
      wfile_write res_content))))))))"

definition do_TRACE_body :: "env \<Rightarrow> shared_settings \<Rightarrow> request \<Rightarrow> unit run" where
  "do_TRACE_body ev ss self = send_error ev self 405 (PyStr ''Method Not Allowed'') None"

definition do_CONNECT_body :: "env \<Rightarrow> shared_settings \<Rightarrow> request \<Rightarrow> unit run" where
  "do_CONNECT_body ev ss self = send_error ev self 405 (PyStr ''Method Not Allowed'') None"

definition do_HEAD_body :: "env \<Rightarrow> shared_settings \<Rightarrow> request \<Rightarrow> unit run" where
  "do_HEAD_body ev ss self =
     bnd (urlopen_call ev (Url (path self))) (\<lambda>res.
     bnd (send_response ev self (res_status res) None) (\<lambda>_.
     bnd (send_headers (res_headers res)) (\<lambda>_.
     end_headers)))"

section \<open>The decorated handlers\<close>

definition do_GET :: "env \<Rightarrow> shared_settings \<Rightarrow> request \<Rightarrow> unit run" where
  "do_GET = filter_and_exceptions do_GET_body"

definition do_POST :: "env \<Rightarrow> shared_settings \<Rightarrow> request \<Rightarrow> unit run" where
  "do_POST = filter_and_exceptions do_POST_body"

definition do_DELETE :: "env \<Rightarrow> shared_settings \<Rightarrow> request \<Rightarrow> unit run" where
  "do_DELETE = filter_and_exceptions do_DELETE_body"

definition do_OPTIONS :: "env \<Rightarrow> shared_settings \<Rightarrow> request \<Rightarrow> unit run" where
  "do_OPTIONS = filter_and_exceptions do_OPTIONS_body"

definition do_PUT :: "env \<Rightarrow> shared_settings \<Rightarrow> request \<Rightarrow> unit run" where
  "do_PUT = filter_and_exceptions do_PUT_body"

definition do_TRACE :: "env \<Rightarrow> shared_settings \<Rightarrow> request \<Rightarrow> unit run" where
  "do_TRACE = filter_and_exceptions do_TRACE_body"

definition do_CONNECT :: "env \<Rightarrow> shared_settings \<Rightarrow> request \<Rightarrow> unit run" where
  "do_CONNECT = filter_and_exceptions do_CONNECT_body"

definition do_HEAD :: "env \<Rightarrow> shared_settings \<Rightarrow> request \<Rightarrow> unit run" where
  "do_HEAD = filter_and_exceptions do_HEAD_body"

datatype http_method = GET | POST | DELETE | OPTIONS | PUT | TRACE | CONNECT | HEAD

text \<open>The dispatch of the base class: method \<open>m\<close> is served by \<^verbatim>\<open>do_m\<close>.\<close>

fun handler :: "http_method \<Rightarrow> env \<Rightarrow> shared_settings \<Rightarrow> request \<Rightarrow> unit run" where
  "handler GET = do_GET"
| "handler POST = do_POST"
| "handler DELETE = do_DELETE"
| "handler OPTIONS = do_OPTIONS"
| "handler PUT = do_PUT"
| "handler TRACE = do_TRACE"
| "handler CONNECT = do_CONNECT"
| "handler HEAD = do_HEAD"

fun method_body :: "http_method \<Rightarrow> env \<Rightarrow> shared_settings \<Rightarrow> request \<Rightarrow> unit run" where
  "method_body GET = do_GET_body"
| "method_body POST = do_POST_body"
| "method_body DELETE = do_DELETE_body"
| "method_body OPTIONS = do_OPTIONS_body"
| "method_body PUT = do_PUT_body"
| "method_body TRACE = do_TRACE_body"
| "method_body CONNECT = do_CONNECT_body"
| "method_body HEAD = do_HEAD_body"

section \<open>Reading a trace\<close>

text \<open>The requests sent to the origin, and the cache calls, in order.\<close>

fun outbound :: "action list \<Rightarrow> urlopen_arg list" where
  "outbound [] = []"
| "outbound (Urlopen a # as) = a # outbound as"
| "outbound (x # as) = outbound as"

fun is_cache_call :: "action \<Rightarrow> bool" where
  "is_cache_call (CacheGet k) = True"
| "is_cache_call (CacheSet k v t) = True"
| "is_cache_call x = False"

definition cache_calls :: "action list \<Rightarrow> action list" where
  "cache_calls as = filter is_cache_call as"

fun is_write :: "action \<Rightarrow> bool" where
  "is_write (WfileWrite b) = True"
| "is_write x = False"


text \<open>
  The two lines that \<^verbatim>\<open>send_error(c, message)\<close> logs: the error line of
  \<^verbatim>\<open>log_error\<close> and the access line of \<^verbatim>\<open>log_request\<close>; the latter is
  also the line that \<^verbatim>\<open>send_response(c)\<close> logs.
\<close>

definition error_line :: "env \<Rightarrow> request \<Rightarrow> int \<Rightarrow> string \<Rightarrow> string" where
  "error_line ev self c message =
     log_string ev self (''code '' @ str_int c @ '', message '' @ message)"

definition access_line :: "env \<Rightarrow> request \<Rightarrow> int \<Rightarrow> string" where
  "access_line ev self c =
     log_string ev self (CHR 0x22 # requestline self @ CHR 0x22 # '' '' @ str_int c @ '' -'')"

text \<open>What an outbound request carries: a bare URL has no headers and no body.\<close>

fun outbound_headers :: "urlopen_arg \<Rightarrow> (string \<times> hval) list" where
  "outbound_headers (Url u) = []"
| "outbound_headers (Req r) = req_headers r"

fun outbound_data :: "urlopen_arg \<Rightarrow> string option" where
  "outbound_data (Url u) = None"
| "outbound_data (Req r) = req_data r"



text \<open>Both filters let the request through.\<close>

definition passes_filter :: "env \<Rightarrow> shared_settings \<Rightarrow> request \<Rightarrow> bool" where
  "passes_filter ev ss self =
     (filter_request_ip ss self \<and> filter_request_url ev ss self = Inr True)"

text \<open>The filter rejects: the IP filter says no, or it says yes and the URL filter says no.\<close>

definition filter_rejects :: "env \<Rightarrow> shared_settings \<Rightarrow> request \<Rightarrow> bool" where
  "filter_rejects ev ss self =
     (if filter_request_ip ss self then filter_request_url ev ss self = Inr False else True)"

section \<open>Example inputs\<close>

definition const_env :: "exc + string option \<Rightarrow> cache_data option \<Rightarrow> exc + http_response \<Rightarrow> env" where
  "const_env host cached origin =
     \<lparr>urlparse_hostname = (\<lambda>u. host), cache_get = (\<lambda>k. cached), urlopen = (\<lambda>a. origin),
       log_date_time = ''04/Nov/2026 10:00:00''\<rparr>"

definition hello_response :: http_response where
  "hello_response = \<lparr>res_status = 200, res_headers = [(''Content-Type'', ''text/plain'')],
     res_read = Inr ''hello''\<rparr>"

definition hello_entry :: cache_data where
  "hello_entry = \<lparr>cached_headers = [(''Content-Type'', ''text/plain'')], cached_content = ''hello''\<rparr>"

definition open_settings :: shared_settings where
  "open_settings = \<lparr>url_whitelist = [], url_blacklist = [], ip_whitelist = [], ip_blacklist = [],
     allow_caching = True, caching_timer = 60\<rparr>"

definition example_request :: request where
  "example_request = \<lparr>requestline = ''GET http://example.com/a HTTP/1.1'',
     path = ''http://example.com/a'', headers = [(''Accept'', ''text/plain'')],
     rfile = [], client_address = (''10.0.0.5'', 50000)\<rparr>"

definition both_lists_settings :: shared_settings where
  "both_lists_settings = \<lparr>url_whitelist = [''example.com''], url_blacklist = [''example.com''],
     ip_whitelist = [''10.0.0.5''], ip_blacklist = [''10.0.0.5''],
     allow_caching = True, caching_timer = 60\<rparr>"

definition whitelist_settings :: shared_settings where
  "whitelist_settings = \<lparr>url_whitelist = [''example.org''], url_blacklist = [],
     ip_whitelist = [''10.0.0.1''], ip_blacklist = [],
     allow_caching = True, caching_timer = 60\<rparr>"

definition blacklist_settings :: shared_settings where
  "blacklist_settings = \<lparr>url_whitelist = [], url_blacklist = [''example.com''],
     ip_whitelist = [], ip_blacklist = [''10.0.0.5''],
     allow_caching = True, caching_timer = 60\<rparr>"

definition ip_blacklisted_settings :: shared_settings where
  "ip_blacklisted_settings = \<lparr>url_whitelist = [], url_blacklist = [], ip_whitelist = [],
     ip_blacklist = [''10.0.0.5''], allow_caching = True, caching_timer = 60\<rparr>"

definition caching_off_settings :: shared_settings where
  "caching_off_settings = \<lparr>url_whitelist = [], url_blacklist = [], ip_whitelist = [],
     ip_blacklist = [], allow_caching = False, caching_timer = 60\<rparr>"

definition url_whitelist_settings :: shared_settings where
  "url_whitelist_settings = \<lparr>url_whitelist = [''example.com''], url_blacklist = [],
     ip_whitelist = [], ip_blacklist = [], allow_caching = True, caching_timer = 60\<rparr>"

definition no_host_request :: request where
  "no_host_request = \<lparr>requestline = ''GET /index.html HTTP/1.1'',
     path = ''/index.html'', headers = [], rfile = [],
     client_address = (''10.0.0.5'', 50000)\<rparr>"

definition short_put_request :: request where
  "short_put_request = \<lparr>requestline = ''PUT http://example.com/a HTTP/1.1'',
     path = ''http://example.com/a'', headers = [(''Content-Length'', ''5'')],
     rfile = ''abc'', client_address = (''10.0.0.5'', 50000)\<rparr>"

definition post_request :: request where
  "post_request = \<lparr>requestline = ''POST http://example.com/a HTTP/1.1'',
     path = ''http://example.com/a'',
     headers = [(''Content-Type'', ''text/plain''), (''Content-Length'', ''5'')],
     rfile = ''abc'', client_address = (''10.0.0.5'', 50000)\<rparr>"

definition put_request :: request where
  "put_request = post_request\<lparr>requestline := ''PUT http://example.com/a HTTP/1.1''\<rparr>"

definition options_request :: request where
  "options_request = example_request\<lparr>requestline := ''OPTIONS http://example.com/a HTTP/1.1''\<rparr>"

definition trace_request :: request where
  "trace_request = example_request\<lparr>requestline := ''TRACE http://example.com/a HTTP/1.1''\<rparr>"

definition head_request :: request where
  "head_request = example_request\<lparr>requestline := ''HEAD http://example.com/a HTTP/1.1''\<rparr>"

definition timeout_path_request :: request where
  "timeout_path_request = \<lparr>requestline = ''GET http://example.com/timeout HTTP/1.1'',
     path = ''http://example.com/timeout'', headers = [], rfile = [],
     client_address = (''10.0.0.5'', 50000)\<rparr>"

definition example_env :: env where
  "example_env = const_env (Inr (Some ''example.com'')) None (Inr hello_response)"

definition cached_env :: env where
  "cached_env = const_env (Inr (Some ''example.com'')) (Some hello_entry) (Inr hello_response)"

definition timeout_env :: env where
  "timeout_env = const_env (Inr (Some ''example.com'')) None (Inl TimeoutError)"

definition not_found_env :: env where
  "not_found_env = const_env (Inr (Some ''example.com'')) None
     (Inl (HTTPError 404 ''Not Found'' ''HTTP Error 404: Not Found''))"

definition no_host_given_env :: env where
  "no_host_given_env = const_env (Inr (Some ''example.com'')) None
     (Inl (URLError (PyStr ''no host given'')))"

definition refused_env :: env where
  "refused_env = const_env (Inr (Some ''example.com'')) None
     (Inl (URLError (PyObj ''[Errno 111] Connection refused'')))"

definition no_host_env :: env where
  "no_host_env = const_env (Inr None) None (Inl ValueError)"

section \<open>Properties\<close>

lemmas base_run_defs = ret_def raise_def lift_def emit_def bnd_def try_except_def
  cache_get_call_def cache_set_call_def urlopen_call_def queue_put_def
  send_header_def end_headers_def wfile_write_def

lemma send_response_run:
  "send_response ev self c msg = ([QueuePut (access_line ev self c), SendResponse c msg], Inr ())"
  by (simp add: send_response_def log_request_def log_message_run_def access_line_def
      base_run_defs)

lemma send_error_run:
  "send_error ev self c (PyStr m) x =
     ([QueuePut (error_line ev self c m), QueuePut (access_line ev self c), SendError c m x],
      Inr ())"
  "send_error ev self c (PyObj m) x =
     (if c \<ge> 200 \<and> c \<notin> {204, 205, 304}
      then ([QueuePut (error_line ev self c m), QueuePut (access_line ev self c)],
            Inl AttributeError)
      else ([QueuePut (error_line ev self c m), QueuePut (access_line ev self c),
             SendError c m x], Inr ()))"
  by (simp_all add: send_error_def log_error_def log_request_def log_message_run_def
      error_line_def access_line_def base_run_defs)

text \<open>
The line that the handler's \<^verbatim>\<open>log_message\<close> puts on the queue during a request is
  the one that the queue model of \<^verbatim>\<open>log_message\<close> adds.
\<close>

lemma log_message_run_queue:
  "log_message_run ev self msg = (map QueuePut (log_message (log_date_time ev) (address_string self) msg []), Inr ())"
  by (simp add: log_message_run_def log_string_def log_message_def put_def base_run_defs)

lemmas run_defs = base_run_defs send_response_run send_error_run

lemma send_headers_run:
  "send_headers hs = (map (\<lambda>hv. SendHeader (fst hv) (snd hv)) hs, Inr ())"
  by (induction hs) (simp_all add: run_defs)

lemma handle_exception_cases:
  "handle_exception ev self ValueError =
     ([QueuePut (error_line ev self 400 ''Bad Request''), QueuePut (access_line ev self 400),
       SendError 400 ''Bad Request'' None], Inr ())"
  "handle_exception ev self (HTTPError n r s) =
     ([QueuePut (error_line ev self n r), QueuePut (access_line ev self n),
       SendError n r (Some s)], Inr ())"
  "handle_exception ev self ConnectionResetError =
     ([QueuePut ''* connection reset by remote host *''], Inr ())"
  "handle_exception ev self TimeoutError =
     ([QueuePut ''* timeout while accessing URL: {self.path} *'',
       QueuePut (error_line ev self 504 ''Gateway Timeout''), QueuePut (access_line ev self 504),
       SendError 504 ''Gateway Timeout'' None], Inr ())"
  "handle_exception ev self (URLError (PyStr r)) =
     ([QueuePut (error_line ev self 502 r), QueuePut (access_line ev self 502),
       SendError 502 r None], Inr ())"
  "handle_exception ev self (URLError (PyObj r)) =
     ([QueuePut (error_line ev self 502 r), QueuePut (access_line ev self 502)],
      Inl AttributeError)"
  "handle_exception ev self BrokenPipeError =
     ([QueuePut ''* client disconnected before response could be sent *''], Inr ())"
  "handle_exception ev self (OSError s) =
     ([QueuePut (''* OS Error: '' @ s @ '' *''),
       QueuePut (error_line ev self 500 ''Internal Server Error''),
       QueuePut (access_line ev self 500),
       SendError 500 ''Internal Server Error'' None], Inr ())"
  "handle_exception ev self (OtherException s) =
     ([QueuePut (''* unexpected Error: '' @ s @ '' *''),
       QueuePut (error_line ev self 500 ''Internal Server Error''),
       QueuePut (access_line ev self 500),
       SendError 500 ''Internal Server Error'' None], Inr ())"
  "handle_exception ev self AttributeError =
     ([QueuePut (''* unexpected Error: '' @ str AttributeError @ '' *''),
       QueuePut (error_line ev self 500 ''Internal Server Error''),
       QueuePut (access_line ev self 500),
       SendError 500 ''Internal Server Error'' None], Inr ())"
  by (simp_all add: handle_exception_def run_defs)

lemma wrapper_rejects:
  "filter_rejects ev ss self \<Longrightarrow>
     filter_and_exceptions func ev ss self = ([QueuePut (error_line ev self 403 ''Access Denied''),
          QueuePut (access_line ev self 403), SendError 403 ''Access Denied'' None], Inr ())"
  by (auto simp: filter_rejects_def filter_and_exceptions_def run_defs split: if_splits)

lemma wrapper_passes:
  "passes_filter ev ss self \<Longrightarrow>
     filter_and_exceptions func ev ss self = try_except (func ev ss self) (handle_exception ev self)"
  by (cases "func ev ss self") (auto simp: passes_filter_def filter_and_exceptions_def run_defs split: sum.splits)

lemma wrapper_body_irrelevant:
  "\<not> passes_filter ev ss self \<Longrightarrow>
     filter_and_exceptions f ev ss self = filter_and_exceptions g ev ss self"
  by (auto simp: passes_filter_def filter_and_exceptions_def run_defs split: sum.splits)

lemma handler_wrapped: "handler m = filter_and_exceptions (method_body m)"
  by (cases m) (simp_all add: do_GET_def do_POST_def do_DELETE_def do_OPTIONS_def do_PUT_def
      do_TRACE_def do_CONNECT_def do_HEAD_def)

lemmas example_defs = const_env_def hello_response_def hello_entry_def open_settings_def
  example_request_def

lemmas filter_defs = filter_request_ip_def filter_request_url_def passes_filter_def
  filter_rejects_def

text \<open>
Claim C1. For a client IP and a target hostname, each filter decides on its own lists:
  a non-empty whitelist that lacks the value rejects it, also when the blacklist is empty;
  with an empty whitelist a blacklisted value is rejected; a value in both lists is allowed.
  The decorator runs the method body when both filters allow the request and answers 403
  when either rejects it.
\<close>

theorem filter_precedence:
  assumes "client_address self = (ip, port)"
      and "urlparse_hostname ev (path self) = Inr h"
  shows "(ip_whitelist ss \<noteq> [] \<and> ip \<notin> set (ip_whitelist ss) \<longrightarrow> \<not> filter_request_ip ss self)
       \<and> (ip_whitelist ss = [] \<and> ip \<in> set (ip_blacklist ss) \<longrightarrow> \<not> filter_request_ip ss self)
       \<and> (ip \<in> set (ip_whitelist ss) \<and> ip \<in> set (ip_blacklist ss) \<longrightarrow> filter_request_ip ss self)
       \<and> (url_whitelist ss \<noteq> [] \<and> h \<notin> Some ` set (url_whitelist ss)
            \<longrightarrow> filter_request_url ev ss self = Inr False)
       \<and> (url_whitelist ss = [] \<and> h \<in> Some ` set (url_blacklist ss)
            \<longrightarrow> filter_request_url ev ss self = Inr False)
       \<and> (h \<in> Some ` set (url_whitelist ss) \<and> h \<in> Some ` set (url_blacklist ss)
            \<longrightarrow> filter_request_url ev ss self = Inr True)
       \<and> (filter_request_ip ss self \<and> filter_request_url ev ss self = Inr True
            \<longrightarrow> filter_and_exceptions func ev ss self
                = try_except (func ev ss self) (handle_exception ev self))
       \<and> (\<not> filter_request_ip ss self \<or> filter_request_url ev ss self = Inr False
            \<longrightarrow> filter_and_exceptions func ev ss self
                = ([QueuePut (error_line ev self 403 ''Access Denied''),
          QueuePut (access_line ev self 403), SendError 403 ''Access Denied'' None], Inr ()))"
proof -
  have ip: "filter_request_ip ss self =
      (if ip_whitelist ss \<noteq> [] then ip \<in> set (ip_whitelist ss) else ip \<notin> set (ip_blacklist ss))"
    using assms(1) by (auto simp: filter_request_ip_def)
  have url: "filter_request_url ev ss self =
      Inr (if url_whitelist ss \<noteq> [] then h \<in> Some ` set (url_whitelist ss)
           else h \<notin> Some ` set (url_blacklist ss))"
    using assms(2) by (auto simp: filter_request_url_def)
  have pass: "filter_request_ip ss self \<and> filter_request_url ev ss self = Inr True
      \<longrightarrow> filter_and_exceptions func ev ss self = try_except (func ev ss self) (handle_exception ev self)"
    using wrapper_passes [of ev ss self func] by (simp add: passes_filter_def)
  have rej: "\<not> filter_request_ip ss self \<or> filter_request_url ev ss self = Inr False
      \<longrightarrow> filter_and_exceptions func ev ss self = ([QueuePut (error_line ev self 403 ''Access Denied''),
          QueuePut (access_line ev self 403), SendError 403 ''Access Denied'' None], Inr ())"
    using wrapper_rejects [of ev ss self func] by (auto simp: filter_rejects_def)
  show ?thesis
    using pass rej by (auto simp: ip url)
qed

text \<open>
The three cases at the client 10.0.0.5 asking for example.com: whitelists that lack
  the values, blacklists alone, and both lists naming the values.
\<close>

theorem filter_precedence_witness:
  "\<not> filter_request_ip whitelist_settings example_request
   \<and> filter_request_url (const_env (Inr (Some ''example.com'')) None (Inr hello_response))
        whitelist_settings example_request = Inr False
   \<and> \<not> filter_request_ip blacklist_settings example_request
   \<and> filter_request_url (const_env (Inr (Some ''example.com'')) None (Inr hello_response))
        blacklist_settings example_request = Inr False
   \<and> filter_request_ip both_lists_settings example_request
   \<and> filter_request_url (const_env (Inr (Some ''example.com'')) None (Inr hello_response))
        both_lists_settings example_request = Inr True"
  using filter_precedence [of example_request "''10.0.0.5''" 50000
      "const_env (Inr (Some ''example.com'')) None (Inr hello_response)" "Some ''example.com''"
      whitelist_settings]
    filter_precedence [of example_request "''10.0.0.5''" 50000
      "const_env (Inr (Some ''example.com'')) None (Inr hello_response)" "Some ''example.com''"
      blacklist_settings]
    filter_precedence [of example_request "''10.0.0.5''" 50000
      "const_env (Inr (Some ''example.com'')) None (Inr hello_response)" "Some ''example.com''"
      both_lists_settings]
  by (simp add: example_defs whitelist_settings_def blacklist_settings_def both_lists_settings_def)

lemma foldl_put: "foldl put q ls = q @ ls"
  by (induction ls arbitrary: q) (simp_all add: put_def)

lemma run_sink_conserves:
  "concat (fst (run_sink ops q)) @ snd (run_sink ops q) = q @ pushed ops"
proof (induction ops q rule: run_sink.induct)
  case (1 q)
  show ?case by simp
next
  case (2 l ops q)
  then show ?case by (simp add: put_def)
next
  case (3 ops q)
  then show ?case by (auto simp: data_def split: prod.splits)
qed

text \<open>
Claim C9. After the lines \<open>ls\<close> are put on an empty queue, the drain of the
  \<^verbatim>\<open>/data\<close> route returns exactly \<open>ls\<close> in put order and leaves the queue
  empty; a drain right after a drain returns nothing; lines logged through
  \<^verbatim>\<open>log_message\<close> come out formatted, in order; and over any run of puts and drains
  the drained lists, one after the other, followed by what is left in the queue, are the
  lines put, each once and in order, so no line is delivered by two drains.
\<close>

theorem drain_exact:
  "data (foldl put [] ls) = (ls, [])
   \<and> data (snd (data q)) = ([], [])
   \<and> data (foldl (\<lambda>q m. log_message d a m q) [] ms) = (map (\<lambda>m. d @ '' '' @ a @ '' '' @ m) ms, [])
   \<and> concat (fst (run_sink ops [])) @ snd (run_sink ops []) = pushed ops"
proof -
  have "foldl (\<lambda>q m. log_message d a m q) q0 ms = q0 @ map (\<lambda>m. d @ '' '' @ a @ '' '' @ m) ms" for q0
    by (induction ms arbitrary: q0) (simp_all add: log_message_def put_def)
  then show ?thesis
    using run_sink_conserves [of ops "[]"] by (simp add: foldl_put data_def)
qed

lemmas more_example_defs = ip_blacklisted_settings_def caching_off_settings_def
  url_whitelist_settings_def no_host_request_def short_put_request_def post_request_def
  example_env_def cached_env_def timeout_env_def no_host_env_def put_request_def
  options_request_def trace_request_def head_request_def timeout_path_request_def
  refused_env_def not_found_env_def no_host_given_env_def

lemmas handler_defs = do_GET_def do_POST_def do_DELETE_def do_OPTIONS_def do_PUT_def
  do_TRACE_def do_CONNECT_def do_HEAD_def

lemmas body_defs = do_GET_body_def do_POST_body_def do_DELETE_body_def do_OPTIONS_body_def
  do_PUT_body_def do_TRACE_body_def do_CONNECT_body_def do_HEAD_body_def

lemma outbound_append: "outbound (as @ bs) = outbound as @ outbound bs"
  by (induction as rule: outbound.induct) simp_all


lemma outbound_headers_sent: "outbound (map (\<lambda>hv. SendHeader (fst hv) (snd hv)) hs) = []"
  by (induction hs) simp_all


lemma cache_calls_headers_sent: "cache_calls (map (\<lambda>hv. SendHeader (fst hv) (snd hv)) hs) = []"
  by (induction hs) (simp_all add: cache_calls_def)

lemma writes_headers_sent: "filter is_write (map (\<lambda>hv. SendHeader (fst hv) (snd hv)) hs) = []"
  by (induction hs) simp_all

lemma handle_exception_outbound: "outbound (fst (handle_exception ev self e)) = []"
proof (cases e)
  case (URLError r)
  then show ?thesis by (cases r) (simp_all add: handle_exception_cases)
qed (simp_all add: handle_exception_cases)

lemma handle_exception_cache_calls: "cache_calls (fst (handle_exception ev self e)) = []"
proof (cases e)
  case (URLError r)
  then show ?thesis by (cases r) (simp_all add: handle_exception_cases cache_calls_def)
qed (simp_all add: handle_exception_cases cache_calls_def)

lemma handle_exception_writes: "filter is_write (fst (handle_exception ev self e)) = []"
proof (cases e)
  case (URLError r)
  then show ?thesis by (cases r) (simp_all add: handle_exception_cases)
qed (simp_all add: handle_exception_cases)

lemmas handle_exception_quiet = handle_exception_outbound handle_exception_cache_calls
  handle_exception_writes

lemma handle_exception_no_send_response:
  "SendResponse c msg \<notin> set (fst (handle_exception ev self e))"
proof (cases e)
  case (URLError r)
  then show ?thesis by (cases r) (simp_all add: handle_exception_cases)
qed (simp_all add: handle_exception_cases)

lemma handle_exception_no_405:
  "SendError 405 ''Method Not Allowed'' None \<notin> set (fst (handle_exception ev self e))"
proof (cases e)
  case (URLError r)
  then show ?thesis by (cases r) (simp_all add: handle_exception_cases)
qed (simp_all add: handle_exception_cases)

lemmas handle_exception_no_response = handle_exception_no_send_response
  handle_exception_no_405

lemma handler_rejects:
  "filter_rejects ev ss self \<Longrightarrow> handler m ev ss self = ([QueuePut (error_line ev self 403 ''Access Denied''),
          QueuePut (access_line ev self 403), SendError 403 ''Access Denied'' None], Inr ())"
  by (simp add: handler_wrapped wrapper_rejects)

lemma handler_passes:
  "passes_filter ev ss self \<Longrightarrow>
     handler m ev ss self = try_except (method_body m ev ss self) (handle_exception ev self)"
  by (simp add: handler_wrapped wrapper_passes)

text \<open>
Claim C5. When the filter rejects the client IP or the target hostname, every handler
  does one thing, the call \<^verbatim>\<open>send_error(403, "Access Denied")\<close>, which logs its two
  lines and writes the 403 response: no request goes to the origin and the cache is
  neither read nor written.
\<close>

theorem filter_reject_403:
  assumes "filter_rejects ev ss self"
  shows "handler m ev ss self = ([QueuePut (error_line ev self 403 ''Access Denied''),
          QueuePut (access_line ev self 403), SendError 403 ''Access Denied'' None], Inr ())
       \<and> outbound (fst (handler m ev ss self)) = []
       \<and> cache_calls (fst (handler m ev ss self)) = []"
  using handler_rejects [OF assms, of m] by (simp add: cache_calls_def)

text \<open>
The scenario of the specification: client 10.0.0.5, ip-blacklist [10.0.0.5], empty
  ip-whitelist.
\<close>

theorem filter_reject_403_witness:
  "filter_rejects example_env ip_blacklisted_settings example_request
   \<and> handler GET example_env ip_blacklisted_settings example_request
       = ([QueuePut (error_line example_env example_request 403 ''Access Denied''),
          QueuePut (access_line example_env example_request 403), SendError 403 ''Access Denied'' None], Inr ())
   \<and> outbound (fst (handler GET example_env ip_blacklisted_settings example_request)) = []
   \<and> cache_calls (fst (handler GET example_env ip_blacklisted_settings example_request)) = []"
proof -
  have r: "filter_rejects example_env ip_blacklisted_settings example_request"
    by (simp add: filter_defs example_defs more_example_defs)
  show ?thesis
    using r filter_reject_403 [OF r, of GET] by (simp add: cache_calls_def)
qed

lemma not_passed_trace:
  assumes "\<not> passes_filter ev ss self"
  shows "filter_and_exceptions func ev ss self = ([QueuePut (error_line ev self 403 ''Access Denied''),
          QueuePut (access_line ev self 403), SendError 403 ''Access Denied'' None], Inr ())
       \<or> (\<exists>e. filter_and_exceptions func ev ss self = handle_exception ev self e)"
proof (cases "filter_request_ip ss self")
  case False
  then show ?thesis by (simp add: wrapper_rejects filter_rejects_def)
next
  case True
  show ?thesis
  proof (cases "filter_request_url ev ss self")
    case (Inl e)
    with True have "filter_and_exceptions func ev ss self = handle_exception ev self e"
      by (cases "handle_exception ev self e") (simp add: filter_and_exceptions_def run_defs)
    then show ?thesis by blast
  next
    case (Inr b)
    with True assms have "filter_rejects ev ss self"
      by (simp add: filter_rejects_def passes_filter_def)
    then show ?thesis by (simp add: wrapper_rejects)
  qed
qed

text \<open>
Claim C10. Each of the eight handlers is the decorator applied to its method body. When
  the filter rejects, the answer is 403 and the body plays no part; whenever the filters
  do not both pass, the outcome is the same for any body; when both pass, the outcome is
  the body's run with its exceptions handled. So the 200 of OPTIONS and the 405 of TRACE
  and CONNECT appear only for requests that passed both filters.
\<close>

theorem filter_before_body:
  "handler m = filter_and_exceptions (method_body m)
   \<and> (filter_rejects ev ss self
        \<longrightarrow> handler m ev ss self = ([QueuePut (error_line ev self 403 ''Access Denied''),
          QueuePut (access_line ev self 403), SendError 403 ''Access Denied'' None], Inr ()))
   \<and> (\<not> passes_filter ev ss self
        \<longrightarrow> handler m ev ss self = filter_and_exceptions func ev ss self)
   \<and> (passes_filter ev ss self
        \<longrightarrow> handler m ev ss self = try_except (method_body m ev ss self) (handle_exception ev self))
   \<and> (SendResponse 200 None \<in> set (fst (do_OPTIONS ev ss self)) \<longrightarrow> passes_filter ev ss self)
   \<and> (SendError 405 ''Method Not Allowed'' None \<in> set (fst (do_TRACE ev ss self))
        \<longrightarrow> passes_filter ev ss self)
   \<and> (SendError 405 ''Method Not Allowed'' None \<in> set (fst (do_CONNECT ev ss self))
        \<longrightarrow> passes_filter ev ss self)"
proof -
  have irrelevant: "\<not> passes_filter ev ss self
      \<longrightarrow> handler m ev ss self = filter_and_exceptions func ev ss self"
    using wrapper_body_irrelevant [of ev ss self "method_body m" func]
    by (simp add: handler_wrapped)
  have quiet: "SendResponse 200 None \<notin> set (fst (filter_and_exceptions f ev ss self))
      \<and> SendError 405 ''Method Not Allowed'' None \<notin> set (fst (filter_and_exceptions f ev ss self))"
    if "\<not> passes_filter ev ss self" for f
    using not_passed_trace [OF that, of f] handle_exception_no_response
    by auto
  have rej: "filter_rejects ev ss self
      \<longrightarrow> handler m ev ss self = ([QueuePut (error_line ev self 403 ''Access Denied''),
          QueuePut (access_line ev self 403), SendError 403 ''Access Denied'' None], Inr ())"
    by (simp add: handler_rejects)
  have pass: "passes_filter ev ss self
      \<longrightarrow> handler m ev ss self = try_except (method_body m ev ss self) (handle_exception ev self)"
    by (simp add: handler_passes)
  have opt: "SendResponse 200 None \<in> set (fst (do_OPTIONS ev ss self)) \<longrightarrow> passes_filter ev ss self"
    using quiet [of do_OPTIONS_body] by (auto simp: do_OPTIONS_def)
  have trace: "SendError 405 ''Method Not Allowed'' None \<in> set (fst (do_TRACE ev ss self))
      \<longrightarrow> passes_filter ev ss self"
    using quiet [of do_TRACE_body] by (auto simp: do_TRACE_def)
  have conn: "SendError 405 ''Method Not Allowed'' None \<in> set (fst (do_CONNECT ev ss self))
      \<longrightarrow> passes_filter ev ss self"
    using quiet [of do_CONNECT_body] by (auto simp: do_CONNECT_def)
  show ?thesis
    using handler_wrapped [of m] rej irrelevant pass opt trace conn by blast
qed

text \<open>
OPTIONS and TRACE from the blacklisted client get 403; from an allowed client they get
  the synthetic 200 and the 405.
\<close>

theorem filter_before_body_witness:
  "filter_rejects example_env ip_blacklisted_settings options_request
   \<and> handler OPTIONS example_env ip_blacklisted_settings options_request
       = ([QueuePut (error_line example_env options_request 403 ''Access Denied''),
          QueuePut (access_line example_env options_request 403), SendError 403 ''Access Denied'' None], Inr ())
   \<and> handler TRACE example_env ip_blacklisted_settings trace_request
       = ([QueuePut (error_line example_env trace_request 403 ''Access Denied''),
          QueuePut (access_line example_env trace_request 403), SendError 403 ''Access Denied'' None], Inr ())
   \<and> passes_filter example_env open_settings trace_request
   \<and> handler TRACE example_env open_settings trace_request
       = ([QueuePut (error_line example_env trace_request 405 ''Method Not Allowed''),
           QueuePut (access_line example_env trace_request 405),
           SendError 405 ''Method Not Allowed'' None], Inr ())
   \<and> handler OPTIONS example_env open_settings options_request
       = ([QueuePut (access_line example_env options_request 200),
           SendResponse 200 None,
           SendHeader ''Allow'' ''OPTIONS, GET, HEAD, POST, PUT, DELETE, CONNECT'',
           SendHeader ''Content-Length'' ''0'', EndHeaders], Inr ())"
  using filter_before_body [of OPTIONS example_env ip_blacklisted_settings options_request]
    filter_before_body [of TRACE example_env ip_blacklisted_settings trace_request]
    filter_before_body [of TRACE example_env open_settings trace_request]
    filter_before_body [of OPTIONS example_env open_settings options_request]
  by (simp add: filter_defs example_defs more_example_defs body_defs run_defs)

lemma cache_calls_append: "cache_calls (as @ bs) = cache_calls as @ cache_calls bs"
  by (simp add: cache_calls_def)

lemma try_except_run:
  "try_except (as, Inl e) h = (as @ fst (h e), snd (h e))"
  "try_except (as, Inr x) h = (as, Inr x)"
  by (simp_all add: try_except_def split: prod.splits)

lemma do_GET_body_hit:
  assumes "allow_caching ss" and "cache_get ev (path self) = Some c"
  shows "do_GET_body ev ss self =
    ([CacheGet (path self), QueuePut (''* sent data from cache '' @ path self @ '' *''),
      QueuePut (access_line ev self 200), SendResponse 200 (Some ''OK (from cache)'')]
     @ map (\<lambda>hv. SendHeader (fst hv) (snd hv)) (cached_headers c)
     @ [EndHeaders, WfileWrite (cached_content c)], Inr ())"
  using assms by (simp add: do_GET_body_def run_defs send_headers_run)

lemma do_GET_body_fetch:
  assumes "cache_get ev (path self) = None \<or> \<not> allow_caching ss"
  shows "do_GET_body ev ss self =
    (case urlopen ev (Url (path self)) of
       Inl e \<Rightarrow> ([CacheGet (path self), Urlopen (Url (path self))], Inl e)
     | Inr res \<Rightarrow>
        (case res_read res of
           Inl e \<Rightarrow> ([CacheGet (path self), Urlopen (Url (path self))], Inl e)
         | Inr res_content \<Rightarrow>
            ([CacheGet (path self), Urlopen (Url (path self))]
             @ (if allow_caching ss
                then [CacheSet (path self)
                        \<lparr>cached_headers = res_headers res, cached_content = res_content\<rparr>
                        (caching_timer ss)]
                else [])
             @ [QueuePut (access_line ev self (res_status res)),
                SendResponse (res_status res) None]
             @ map (\<lambda>hv. SendHeader (fst hv) (snd hv)) (res_headers res)
             @ [EndHeaders, WfileWrite res_content], Inr ())))"
  using assms
  by (auto simp: do_GET_body_def run_defs send_headers_run Let_def split: sum.splits)

text \<open>
Claim C3. A GET that passes the filter while caching is allowed and the cache returns an
  entry for the full URL puts the line \<^verbatim>\<open>* sent data from cache <url> *\<close> on the log
  queue, answers \<^verbatim>\<open>send_response(200, "OK (from cache)")\<close> (which logs the access
  line), sends the stored headers in their order, ends the headers and writes the stored
  content, and makes no call to the origin.
\<close>

theorem cache_hit_served:
  assumes "passes_filter ev ss self" and "allow_caching ss"
      and "cache_get ev (path self) = Some c"
  shows "do_GET ev ss self =
    ([CacheGet (path self), QueuePut (''* sent data from cache '' @ path self @ '' *''),
      QueuePut (access_line ev self 200), SendResponse 200 (Some ''OK (from cache)'')]
     @ map (\<lambda>hv. SendHeader (fst hv) (snd hv)) (cached_headers c)
     @ [EndHeaders, WfileWrite (cached_content c)], Inr ())
    \<and> outbound (fst (do_GET ev ss self)) = []"
proof -
  have "do_GET ev ss self = try_except (do_GET_body ev ss self) (handle_exception ev self)"
    using handler_passes [OF assms(1), of GET] by simp
  then show ?thesis
    by (simp add: do_GET_body_hit [OF assms(2,3)] try_except_run outbound_append
        outbound_headers_sent)
qed

text \<open>
The second request of the specification's scenario: the entry for
  \<^verbatim>\<open>http://example.com/a\<close> with body \<open>hello\<close> is replayed.
\<close>

theorem cache_hit_served_witness:
  "passes_filter cached_env open_settings example_request
   \<and> do_GET cached_env open_settings example_request =
      ([CacheGet ''http://example.com/a'',
        QueuePut ''* sent data from cache http://example.com/a *'',
        QueuePut (access_line cached_env example_request 200),
        SendResponse 200 (Some ''OK (from cache)''),
        SendHeader ''Content-Type'' ''text/plain'',
        EndHeaders, WfileWrite ''hello''], Inr ())"
proof -
  have p: "passes_filter cached_env open_settings example_request"
    by (simp add: filter_defs example_defs more_example_defs)
  have a: "allow_caching open_settings" by (simp add: open_settings_def)
  have c: "cache_get cached_env (path example_request) = Some hello_entry"
    by (simp add: cached_env_def const_env_def)
  show ?thesis
    using p cache_hit_served [OF p a c] by (simp add: example_defs)
qed

lemma filter_ignores_cache:
  "passes_filter (ev\<lparr>cache_get := g\<rparr>) ss self = passes_filter ev ss self"
  by (simp add: passes_filter_def filter_request_url_def)

lemma log_ignores_cache:
  "access_line (ev\<lparr>cache_get := g\<rparr>) self c = access_line ev self c"
  "error_line (ev\<lparr>cache_get := g\<rparr>) self c msg = error_line ev self c msg"
  by (simp_all add: access_line_def error_line_def log_string_def)

lemma handle_exception_ignores_cache:
  "handle_exception (ev\<lparr>cache_get := g\<rparr>) self e = handle_exception ev self e"
proof (cases e)
  case (URLError r)
  then show ?thesis by (cases r) (simp_all add: handle_exception_cases log_ignores_cache)
qed (simp_all add: handle_exception_cases log_ignores_cache)

text \<open>
Claim C2, as the code has it. A GET that passes the filter while caching is not allowed
  makes exactly one cache call, the lookup \<^verbatim>\<open>cache.get(path)\<close> that opens
  \<^verbatim>\<open>do_GET\<close>; its result is ignored (the whole run is the same whatever the cache
  returns), \<^verbatim>\<open>cache.set\<close> is not called, and the origin is asked exactly once.
\<close>

theorem caching_disabled_get:
  assumes "passes_filter ev ss self" and "\<not> allow_caching ss"
  shows "cache_calls (fst (do_GET ev ss self)) = [CacheGet (path self)]
       \<and> outbound (fst (do_GET ev ss self)) = [Url (path self)]
       \<and> do_GET (ev\<lparr>cache_get := g\<rparr>) ss self = do_GET ev ss self"
proof -
  have run: "do_GET ev' ss self = try_except (do_GET_body ev' ss self) (handle_exception ev' self)"
    if "passes_filter ev' ss self" for ev'
    using handler_passes [OF that, of GET] by simp
  have fetch: "cache_get ev' (path self) = None \<or> \<not> allow_caching ss" for ev'
    using assms(2) by simp
  have calls: "cache_calls (fst (do_GET ev ss self)) = [CacheGet (path self)]"
    using assms(2)
    by (simp add: run [OF assms(1)] do_GET_body_fetch [OF fetch] try_except_run
        cache_calls_append cache_calls_headers_sent handle_exception_quiet
        split: sum.splits)
       (simp add: cache_calls_def handle_exception_quiet(2) [unfolded cache_calls_def])
  have out: "outbound (fst (do_GET ev ss self)) = [Url (path self)]"
    using assms(2)
    by (simp add: run [OF assms(1)] do_GET_body_fetch [OF fetch] try_except_run
        outbound_append outbound_headers_sent handle_exception_quiet split: sum.splits)
  have he: "handle_exception (ev\<lparr>cache_get := g\<rparr>) self = handle_exception ev self"
    by (rule ext) (rule handle_exception_ignores_cache)
  have body: "do_GET_body (ev\<lparr>cache_get := g\<rparr>) ss self = do_GET_body ev ss self"
    by (simp add: do_GET_body_fetch [OF fetch] log_ignores_cache split: sum.splits)
  have same: "do_GET (ev\<lparr>cache_get := g\<rparr>) ss self = do_GET ev ss self"
    using assms by (simp add: run filter_ignores_cache he body)
  show ?thesis using calls out same by simp
qed

text \<open>
Caching switched off while an entry for the URL is still in the cache.
\<close>

theorem caching_disabled_get_witness:
  "passes_filter cached_env caching_off_settings example_request
   \<and> \<not> allow_caching caching_off_settings
   \<and> cache_calls (fst (do_GET cached_env caching_off_settings example_request))
       = [CacheGet ''http://example.com/a'']
   \<and> outbound (fst (do_GET cached_env caching_off_settings example_request))
       = [Url ''http://example.com/a'']"
proof -
  have p: "passes_filter cached_env caching_off_settings example_request"
    by (simp add: filter_defs example_defs more_example_defs)
  have a: "\<not> allow_caching caching_off_settings" by (simp add: caching_off_settings_def)
  show ?thesis
    using p a caching_disabled_get [OF p a] by (simp add: example_defs)
qed

text \<open>
The claim as written says that \<^verbatim>\<open>get\<close> is not invoked. With caching off, the
  run of a GET still starts with the cache lookup.
\<close>

theorem caching_disabled_get_counterexample:
  "\<not> allow_caching caching_off_settings
   \<and> do_GET cached_env caching_off_settings example_request =
      ([CacheGet ''http://example.com/a'', Urlopen (Url ''http://example.com/a''),
        QueuePut (access_line cached_env example_request 200),
        SendResponse 200 None, SendHeader ''Content-Type'' ''text/plain'',
        EndHeaders, WfileWrite ''hello''], Inr ())"
  by (simp add: do_GET_def filter_and_exceptions_def do_GET_body_def filter_defs
      example_defs more_example_defs run_defs)




lemma str_int_502: "str_int 502 = ''502''"
  by (simp add: str_int_def str_nat.simps char_of_def bit_Suc_0_iff)

lemmas line_defs = error_line_def access_line_def log_string_def address_string_def




text \<open>
A URLError whose reason is not a str, which is what urllib raises for a refused
  connection, a failed name lookup or a connect timeout. The handler calls
  \<^verbatim>\<open>send_error(502, e.reason)\<close>; the two lines are logged, then
  \<^verbatim>\<open>html.escape\<close> fails on the reason. \<^verbatim>\<open>handle_exception\<close> runs in the
  \<^verbatim>\<open>except\<close> clause of the decorator, so the AttributeError leaves the handler and no
  response is written.
\<close>

lemma unreachable_origin_escapes:
  assumes "passes_filter ev ss self"
      and "method_body m ev ss self = (as, Inl (URLError (PyObj r)))"
  shows "handler m ev ss self =
    (as @ [QueuePut (error_line ev self 502 r), QueuePut (access_line ev self 502)],
     Inl AttributeError)"
  using handler_passes [OF assms(1), of m] assms(2)
  by (simp add: try_except_run handle_exception_cases)

text \<open>
A GET whose origin refuses the connection.
\<close>

lemma connection_refused_get:
  "do_GET refused_env open_settings example_request =
    ([CacheGet ''http://example.com/a'', Urlopen (Url ''http://example.com/a''),
      QueuePut ''04/Nov/2026 10:00:00 10.0.0.5 code 502, message [Errno 111] Connection refused'',
      QueuePut (''04/Nov/2026 10:00:00 10.0.0.5 '' @ CHR 0x22
                  # ''GET http://example.com/a HTTP/1.1'' @ CHR 0x22 # '' 502 -'')],
     Inl AttributeError)"
  by (simp add: do_GET_def filter_and_exceptions_def do_GET_body_def filter_defs
      example_defs more_example_defs run_defs handle_exception_cases line_defs str_int_502)

lemma outbound_try_except:
  "outbound (fst (try_except m (handle_exception ev self))) = outbound (fst m)"
  by (cases m; cases "snd m") (auto simp: try_except_run outbound_append handle_exception_quiet)

lemma writes_try_except:
  "filter is_write (fst (try_except m (handle_exception ev self))) = filter is_write (fst m)"
  by (cases m; cases "snd m") (auto simp: try_except_run handle_exception_quiet)

lemma do_HEAD_body_run:
  "do_HEAD_body ev ss self =
    (case urlopen ev (Url (path self)) of
       Inl e \<Rightarrow> ([Urlopen (Url (path self))], Inl e)
     | Inr res \<Rightarrow>
        ([Urlopen (Url (path self)), QueuePut (access_line ev self (res_status res)),
          SendResponse (res_status res) None]
         @ map (\<lambda>hv. SendHeader (fst hv) (snd hv)) (res_headers res) @ [EndHeaders], Inr ()))"
  by (simp add: do_HEAD_body_def run_defs send_headers_run split: sum.splits)

text \<open>
Claim C6, as the code has it. GET and HEAD call \<^verbatim>\<open>urlopen(self.path)\<close> with the bare
  URL: for a request that passes the filter, HEAD sends exactly that one request to the
  origin and writes nothing to the client after the headers, and GET sends exactly that one
  request unless it is served from the cache. A bare URL carries no headers and no body, so
  the inbound headers are not forwarded.
\<close>

theorem get_head_outbound:
  assumes "passes_filter ev ss self"
  shows "outbound (fst (do_HEAD ev ss self)) = [Url (path self)]
       \<and> filter is_write (fst (do_HEAD ev ss self)) = []
       \<and> (cache_get ev (path self) = None \<or> \<not> allow_caching ss
            \<longrightarrow> outbound (fst (do_GET ev ss self)) = [Url (path self)])
       \<and> outbound_headers (Url (path self)) = []
       \<and> outbound_data (Url (path self)) = None"
proof -
  have head: "do_HEAD ev ss self = try_except (do_HEAD_body ev ss self) (handle_exception ev self)"
    using handler_passes [OF assms, of HEAD] by simp
  have get: "do_GET ev ss self = try_except (do_GET_body ev ss self) (handle_exception ev self)"
    using handler_passes [OF assms, of GET] by simp
  have h1: "outbound (fst (do_HEAD ev ss self)) = [Url (path self)]"
    by (simp add: head outbound_try_except do_HEAD_body_run outbound_append
        outbound_headers_sent split: sum.splits)
  have h2: "filter is_write (fst (do_HEAD ev ss self)) = []"
    by (simp add: head writes_try_except do_HEAD_body_run writes_headers_sent split: sum.splits)
  have g: "outbound (fst (do_GET ev ss self)) = [Url (path self)]"
    if "cache_get ev (path self) = None \<or> \<not> allow_caching ss"
    by (simp add: get outbound_try_except do_GET_body_fetch [OF that] outbound_append
        outbound_headers_sent split: sum.splits)
  show ?thesis using h1 h2 g by simp
qed

text \<open>
GET and HEAD for \<^verbatim>\<open>http://example.com/a\<close> with empty filter lists and an empty cache.
\<close>

theorem get_head_outbound_witness:
  "passes_filter example_env open_settings head_request
   \<and> outbound (fst (do_HEAD example_env open_settings head_request))
       = [Url ''http://example.com/a'']
   \<and> filter is_write (fst (do_HEAD example_env open_settings head_request)) = []
   \<and> passes_filter example_env open_settings example_request
   \<and> outbound (fst (do_GET example_env open_settings example_request))
       = [Url ''http://example.com/a'']"
proof -
  have p: "passes_filter example_env open_settings example_request"
    by (simp add: filter_defs example_defs more_example_defs)
  have q: "passes_filter example_env open_settings head_request"
    by (simp add: filter_defs example_defs more_example_defs)
  show ?thesis
    using p q get_head_outbound [OF p] get_head_outbound [OF q]
    by (simp add: example_defs more_example_defs)
qed

text \<open>
The claim as written says the outbound request is issued with the inbound headers. The
  request below arrives with an Accept header; the request sent to the origin, by GET and by
  HEAD, carries no header.
\<close>

theorem get_head_outbound_counterexample:
  "passes_filter example_env open_settings example_request
   \<and> headers example_request = [(''Accept'', ''text/plain'')]
   \<and> map outbound_headers (outbound (fst (do_GET example_env open_settings example_request)))
       = [[]]
   \<and> passes_filter example_env open_settings head_request
   \<and> headers head_request = [(''Accept'', ''text/plain'')]
   \<and> map outbound_headers (outbound (fst (do_HEAD example_env open_settings head_request)))
       = [[]]"
  by (simp add: do_GET_def do_HEAD_def filter_and_exceptions_def do_GET_body_def
      do_HEAD_body_def filter_defs example_defs more_example_defs run_defs)

lemma do_POST_body_outbound:
  "outbound (fst (do_POST_body ev ss self)) =
      (case py_int (headers_get (headers self) ''Content-Length'') of
         Inl e \<Rightarrow> []
       | Inr content_length \<Rightarrow>
          (case rfile_read self content_length of
             Inl e \<Rightarrow> []
           | Inr post_data \<Rightarrow>
              [Req \<lparr>full_url = path self, req_data = Some post_data,
                    req_headers =
                      [(''Content-Type'', (case headers_get (headers self) ''Content-Type'' of
                                             None \<Rightarrow> HNone | Some v \<Rightarrow> HStr v)),
                       (''Content-Length'', HInt (int (length post_data)))],
                    req_method = Some ''POST''\<rparr>]))"
  by (simp add: do_POST_body_def run_defs send_headers_run Let_def Request_def outbound_append
      outbound_headers_sent split: sum.splits)

lemma do_PUT_body_outbound:
  "outbound (fst (do_PUT_body ev ss self)) =
      (case (case headers_get (headers self) ''Content-Length'' of
               None \<Rightarrow> Inr 0 | Some v \<Rightarrow> py_int (Some v)) of
         Inl e \<Rightarrow> []
       | Inr content_length \<Rightarrow>
          (case rfile_read self content_length of
             Inl e \<Rightarrow> []
           | Inr request_body \<Rightarrow>
              [Req \<lparr>full_url = path self, req_data = Some request_body,
                    req_headers = headers_dict (headers self),
                    req_method = Some ''PUT''\<rparr>]))"
  by (simp add: do_PUT_body_def run_defs send_headers_run Let_def Request_def outbound_append
      outbound_headers_sent split: sum.splits)

text \<open>
Claim C7, as the code has it. For a request that passes the filter, POST and PUT send at
  most one request to the origin, none when the length cannot be read. POST sends the body
  it read with two headers of its own: the inbound Content-Type and a Content-Length that
  is the length of the body read. PUT sends the body it read with all inbound headers as
  they came, the client's Content-Length among them.
\<close>

theorem post_put_outbound:
  assumes "passes_filter ev ss self"
  shows "outbound (fst (do_POST ev ss self)) =
      (case py_int (headers_get (headers self) ''Content-Length'') of
         Inl e \<Rightarrow> []
       | Inr content_length \<Rightarrow>
          (case rfile_read self content_length of
             Inl e \<Rightarrow> []
           | Inr post_data \<Rightarrow>
              [Req \<lparr>full_url = path self, req_data = Some post_data,
                    req_headers =
                      [(''Content-Type'', (case headers_get (headers self) ''Content-Type'' of
                                             None \<Rightarrow> HNone | Some v \<Rightarrow> HStr v)),
                       (''Content-Length'', HInt (int (length post_data)))],
                    req_method = Some ''POST''\<rparr>]))
    \<and> outbound (fst (do_PUT ev ss self)) =
      (case (case headers_get (headers self) ''Content-Length'' of
               None \<Rightarrow> Inr 0 | Some v \<Rightarrow> py_int (Some v)) of
         Inl e \<Rightarrow> []
       | Inr content_length \<Rightarrow>
          (case rfile_read self content_length of
             Inl e \<Rightarrow> []
           | Inr request_body \<Rightarrow>
              [Req \<lparr>full_url = path self, req_data = Some request_body,
                    req_headers = headers_dict (headers self),
                    req_method = Some ''PUT''\<rparr>]))"
proof -
  have post: "do_POST ev ss self = try_except (do_POST_body ev ss self) (handle_exception ev self)"
    using handler_passes [OF assms, of POST] by simp
  have put: "do_PUT ev ss self = try_except (do_PUT_body ev ss self) (handle_exception ev self)"
    using handler_passes [OF assms, of PUT] by simp
  show ?thesis
    by (simp only: post put outbound_try_except do_POST_body_outbound do_PUT_body_outbound)
qed

text \<open>
A client that announces five bytes and sends three: POST forwards Content-Length 3, PUT
  forwards the client's 5.
\<close>

theorem post_put_outbound_witness:
  "passes_filter example_env open_settings post_request
   \<and> outbound (fst (do_POST example_env open_settings post_request)) =
       [Req \<lparr>full_url = ''http://example.com/a'', req_data = Some ''abc'',
             req_headers = [(''Content-Type'', HStr ''text/plain''), (''Content-Length'', HInt 3)],
             req_method = Some ''POST''\<rparr>]
   \<and> passes_filter example_env open_settings put_request
   \<and> outbound (fst (do_PUT example_env open_settings put_request)) =
       [Req \<lparr>full_url = ''http://example.com/a'', req_data = Some ''abc'',
             req_headers = [(''Content-Type'', HStr ''text/plain''), (''Content-Length'', HStr ''5'')],
             req_method = Some ''PUT''\<rparr>]"
proof -
  have p: "passes_filter example_env open_settings post_request"
    by (simp add: filter_defs example_defs more_example_defs)
  have q: "passes_filter example_env open_settings put_request"
    by (simp add: filter_defs example_defs more_example_defs)
  show ?thesis
    using p q post_put_outbound [OF p] post_put_outbound [OF q]
    by (simp add: example_defs more_example_defs headers_get_def lower_def lower_char_def
        char_of_def bit_Suc_0_iff py_int_def int_of_str_def strip_def is_space_def is_digit_def
        digit_val_def rfile_read_def headers_dict_def)
qed

text \<open>
The claim as written says that PUT recomputes Content-Length from the body read. The PUT
  below announces five bytes and sends three; the outbound request carries the three bytes
  under the client's header value 5.
\<close>

theorem post_put_outbound_counterexample:
  "passes_filter example_env open_settings short_put_request
   \<and> rfile short_put_request = ''abc''
   \<and> outbound (fst (do_PUT example_env open_settings short_put_request)) =
       [Req \<lparr>full_url = ''http://example.com/a'', req_data = Some ''abc'',
             req_headers = [(''Content-Length'', HStr ''5'')],
             req_method = Some ''PUT''\<rparr>]"
  by (simp add: do_PUT_def filter_and_exceptions_def do_PUT_body_def filter_defs
      example_defs more_example_defs run_defs Request_def headers_get_def lower_def
      lower_char_def char_of_def bit_Suc_0_iff py_int_def int_of_str_def strip_def is_space_def
      is_digit_def digit_val_def rfile_read_def headers_dict_def)

text \<open>
Claim C8, as the code has it. Take a request whose client address passes the address
  filter. When URL parsing yields no hostname, the URL filter compares that absent value
  with its lists like any other: under a non-empty URL whitelist the request is answered
  403 Access Denied for every method; under an empty one it passes the filter and the
  method body runs, and a ValueError raised by that body is answered 400 Bad Request. When
  URL parsing itself raises ValueError the answer is 400 Bad Request and nothing else
  is done.
\<close>

theorem no_hostname_outcome:
  assumes "filter_request_ip ss self"
  shows "(urlparse_hostname ev (path self) = Inr None \<and> url_whitelist ss \<noteq> []
            \<longrightarrow> handler m ev ss self = ([QueuePut (error_line ev self 403 ''Access Denied''),
          QueuePut (access_line ev self 403), SendError 403 ''Access Denied'' None], Inr ()))
       \<and> (urlparse_hostname ev (path self) = Inr None \<and> url_whitelist ss = []
            \<longrightarrow> passes_filter ev ss self
              \<and> handler m ev ss self
                  = try_except (method_body m ev ss self) (handle_exception ev self))
       \<and> (urlparse_hostname ev (path self) = Inr None \<and> url_whitelist ss = []
            \<and> method_body m ev ss self = (as, Inl ValueError)
            \<longrightarrow> handler m ev ss self = (as @ [QueuePut (error_line ev self 400 ''Bad Request''),
          QueuePut (access_line ev self 400), SendError 400 ''Bad Request'' None], Inr ()))
       \<and> (urlparse_hostname ev (path self) = Inl ValueError
            \<longrightarrow> handler m ev ss self = ([QueuePut (error_line ev self 400 ''Bad Request''),
          QueuePut (access_line ev self 400), SendError 400 ''Bad Request'' None], Inr ()))"
proof -
  have rej: "handler m ev ss self = ([QueuePut (error_line ev self 403 ''Access Denied''),
          QueuePut (access_line ev self 403), SendError 403 ''Access Denied'' None], Inr ())"
    if "urlparse_hostname ev (path self) = Inr None" "url_whitelist ss \<noteq> []"
  proof -
    have "filter_rejects ev ss self"
      using assms that by (auto simp: filter_rejects_def filter_request_url_def)
    then show ?thesis by (rule handler_rejects)
  qed
  have pass: "passes_filter ev ss self"
    if "urlparse_hostname ev (path self) = Inr None" "url_whitelist ss = []"
    using assms that by (auto simp: passes_filter_def filter_request_url_def)
  have bad: "handler m ev ss self = ([QueuePut (error_line ev self 400 ''Bad Request''),
          QueuePut (access_line ev self 400), SendError 400 ''Bad Request'' None], Inr ())"
    if "urlparse_hostname ev (path self) = Inl ValueError"
    using assms that
    by (simp add: handler_wrapped filter_and_exceptions_def filter_request_url_def run_defs
        handle_exception_cases)
  show ?thesis
    using rej pass bad
    by (auto simp: handler_passes try_except_run handle_exception_cases)
qed

text \<open>
A relative path has no hostname. Under a whitelist naming one host the GET is answered
  403; with all lists empty the GET reaches the origin call, which refuses the relative
  URL with ValueError, and the answer is 400.
\<close>

theorem no_hostname_outcome_witness:
  "filter_request_ip url_whitelist_settings no_host_request
   \<and> handler GET no_host_env url_whitelist_settings no_host_request
       = ([QueuePut (error_line no_host_env no_host_request 403 ''Access Denied''),
          QueuePut (access_line no_host_env no_host_request 403), SendError 403 ''Access Denied'' None], Inr ())
   \<and> filter_request_ip open_settings no_host_request
   \<and> handler GET no_host_env open_settings no_host_request
       = ([CacheGet ''/index.html'', Urlopen (Url ''/index.html''),
           QueuePut (error_line no_host_env no_host_request 400 ''Bad Request''),
           QueuePut (access_line no_host_env no_host_request 400),
           SendError 400 ''Bad Request'' None], Inr ())"
proof -
  have i1: "filter_request_ip url_whitelist_settings no_host_request"
    by (simp add: filter_defs example_defs more_example_defs)
  have i2: "filter_request_ip open_settings no_host_request"
    by (simp add: filter_defs example_defs more_example_defs)
  have b: "method_body GET no_host_env open_settings no_host_request
      = ([CacheGet ''/index.html'', Urlopen (Url ''/index.html'')], Inl ValueError)"
    by (simp add: do_GET_body_def example_defs more_example_defs run_defs)
  have h1: "urlparse_hostname no_host_env (path no_host_request) = Inr None"
    by (simp add: example_defs more_example_defs)
  have w1: "url_whitelist url_whitelist_settings \<noteq> []"
    by (simp add: more_example_defs)
  have w2: "url_whitelist open_settings = []"
    by (simp add: example_defs)
  have r1: "handler GET no_host_env url_whitelist_settings no_host_request
      = ([QueuePut (error_line no_host_env no_host_request 403 ''Access Denied''),
          QueuePut (access_line no_host_env no_host_request 403), SendError 403 ''Access Denied'' None], Inr ())"
    using no_hostname_outcome [OF i1, of no_host_env GET] h1 w1 by blast
  have r2: "handler GET no_host_env open_settings no_host_request
      = ([CacheGet ''/index.html'', Urlopen (Url ''/index.html'')]
          @ [QueuePut (error_line no_host_env no_host_request 400 ''Bad Request''),
             QueuePut (access_line no_host_env no_host_request 400),
             SendError 400 ''Bad Request'' None], Inr ())"
    using no_hostname_outcome [OF i2, of no_host_env GET
        "[CacheGet ''/index.html'', Urlopen (Url ''/index.html'')]"] h1 w2 b by blast
  show ?thesis
    using i1 i2 r1 r2 by simp
qed

text \<open>
The claim as written says that a request without a hostname is never answered 403. The
  GET below has no hostname, meets a non-empty URL whitelist, and is answered
  403 Access Denied.
\<close>

theorem no_hostname_outcome_counterexample:
  "urlparse_hostname no_host_env (path no_host_request) = Inr None
   \<and> do_GET no_host_env url_whitelist_settings no_host_request
       = ([QueuePut (error_line no_host_env no_host_request 403 ''Access Denied''),
          QueuePut (access_line no_host_env no_host_request 403), SendError 403 ''Access Denied'' None], Inr ())"
  by (simp add: do_GET_def filter_and_exceptions_def filter_defs example_defs
      more_example_defs run_defs)

end
